theory Spec2Isabelle
  imports Main "HOL-Library.Word"
begin

section \<open>JavaScript strings\<close>

text \<open>
  A JavaScript string is a sequence of UTF-16 code units. The glyphs of the operator table lie
  outside ASCII, so a code unit is a 16-bit word and not a \<^typ>\<open>char\<close>. \<open>str\<close> turns an
  ASCII literal into its code units.
\<close>

type_synonym jschar = "16 word"
type_synonym jsstring = "jschar list"

definition str :: "string \<Rightarrow> jsstring" where
  "str s = map of_char s"

definition backslash :: jschar where
  "backslash = 0x5C"

definition slash :: jschar where
  "slash = 0x2F"

definition space :: jschar where
  "space = 0x20"

text \<open>\<^verbatim>\<open>s.startsWith(searchString)\<close> and \<^verbatim>\<open>s.substring(1)\<close>.\<close>

definition startsWith :: "jsstring \<Rightarrow> jsstring \<Rightarrow> bool" where
  "startsWith s searchString = (take (length searchString) s = searchString)"

definition substring1 :: "jsstring \<Rightarrow> jsstring" where
  "substring1 s = drop 1 s"

section \<open>The editor's data types\<close>

datatype CompletionItemKind =
    KindText | KindMethod | KindFunction | KindConstructor | KindField | KindVariable
  | KindClass | KindInterface | KindModule | KindProperty | KindUnit | KindValue | KindEnum
  | KindKeyword | KindSnippet | KindColor | KindFile | KindReference | KindFolder
  | KindEnumMember | KindConstant | KindStruct | KindEvent | KindOperator | KindTypeParameter
  | KindUser | KindIssue

datatype SymbolKind =
    SymbolFile | SymbolModule | SymbolNamespace | SymbolPackage | SymbolClass | SymbolMethod
  | SymbolProperty | SymbolField | SymbolConstructor | SymbolEnum | SymbolInterface
  | SymbolFunction | SymbolVariable | SymbolConstant | SymbolString | SymbolNumber
  | SymbolBoolean | SymbolArray | SymbolObject | SymbolKey | SymbolNull | SymbolEnumMember
  | SymbolStruct | SymbolEvent | SymbolOperator | SymbolTypeParameter

record Position =
  line :: nat
  character :: nat

record Range =
  range_start :: Position
  range_end :: Position

text \<open>
  \<^verbatim>\<open>new vscode.Range(start, end)\<close>: the editor stores the two positions in document order,
  swapping them when \<open>start\<close> lies after \<open>end\<close>.
\<close>

definition isBeforeOrEqual :: "Position \<Rightarrow> Position \<Rightarrow> bool" where
  "isBeforeOrEqual a b =
     (line a < line b \<or> (line a = line b \<and> character a \<le> character b))"

definition newRange :: "Position \<Rightarrow> Position \<Rightarrow> Range" where
  "newRange a b =
     (if isBeforeOrEqual a b then \<lparr>range_start = a, range_end = b\<rparr>
      else \<lparr>range_start = b, range_end = a\<rparr>)"

record CompletionItem =
  label :: jsstring
  kind :: CompletionItemKind
  insertText :: "jsstring option"
  itemRange :: "Range option"

text \<open>\<^verbatim>\<open>new vscode.CompletionItem(label, kind)\<close> leaves the other fields undefined.\<close>

definition newCompletionItem :: "jsstring \<Rightarrow> CompletionItemKind \<Rightarrow> CompletionItem" where
  "newCompletionItem l k = \<lparr>label = l, kind = k, insertText = None, itemRange = None\<rparr>"

record CompletionList =
  items :: "CompletionItem list"
  isIncomplete :: bool

definition newCompletionList :: "CompletionItem list \<Rightarrow> bool \<Rightarrow> CompletionList" where
  "newCompletionList its inc = \<lparr>items = its, isIncomplete = inc\<rparr>"

record SymbolInformation =
  name :: jsstring
  symbolKind :: SymbolKind

section \<open>The catalog\<close>

definition TLA_OPERATORS :: "jsstring list" where
  "TLA_OPERATORS = map str
    [''land'', ''lor'', ''implies'',
     ''lnot'', ''equiv'', ''triangleq'',
     ''in'', ''notin'', ''ne'',
     ''ll'', ''gg'', ''[]'',
     ''leq'', ''geq'', ''<>'',
     ''~>'', ''prec'', ''succ'',
     ''-+->'', ''preceq'', ''succeq'',
     ''div'', ''subseteq'', ''supseteq'',
     ''cdot'', ''subset'', ''supset'',
     ''o'', ''sqsubset'', ''sqsupset'',
     ''bullet'', ''sqsubseteq'', ''sqsupseteq'',
     ''star'', ''vdash'', ''dashv'',
     ''bigcirc'', ''models'', ''vDash'',
     ''sim'', ''maps'', ''leftarrow'',
     ''simeq'', ''cap'', ''cup'',
     ''asymp'', ''sqcap'', ''sqcup'',
     ''approx'', ''oplus'', ''uplus'',
     ''cong'', ''ominus'', ''X'',
     ''doteq'', ''odot'', ''wr'',
     ''otimes'', ''propto'', ''oslash'',
     ''E'', ''A'', ''EE'', ''AA'']"

text \<open>
  The entries handed to \<^verbatim>\<open>new Map([...])\<close>, in the order of the source; each glyph is given by
  its code units (the glyph of \<open>vDash\<close> is the two ASCII characters \<open>=|\<close>).
\<close>

definition TLA_UNICODE_OPERATOR_ENTRIES :: "(jsstring \<times> jsstring) list" where
  "TLA_UNICODE_OPERATOR_ENTRIES =
  [(str ''land'', [0x2227]), (str ''lor'', [0x2228]), (str ''implies'', [0x21D2]),
   (str ''lnot'', [0x00AC]), (str ''equiv'', [0x2261]), (str ''triangleq'', [0x225C]),
   (str ''in'', [0x2208]), (str ''notin'', [0x2209]), (str ''ne'', [0x2260]),
   (str ''ll'', [0x226A]), (str ''gg'', [0x226B]), (str ''[]'', [0x25A1]),
   (str ''leq'', [0x2264]), (str ''geq'', [0x2265]), (str ''<>'', [0x25CA]),
   (str ''~>'', [0x219D]), (str ''prec'', [0x227A]), (str ''succ'', [0x227B]),
   (str ''-+->'', [0x21F8]), (str ''preceq'', [0x2AAF]), (str ''succeq'', [0x2AB0]),
   (str ''div'', [0x00F7]), (str ''subseteq'', [0x2286]), (str ''supseteq'', [0x2287]),
   (str ''cdot'', [0x00B7]), (str ''subset'', [0x2282]), (str ''supset'', [0x2283]),
   (str ''o'', [0x25CB]), (str ''sqsubset'', [0x228F]), (str ''sqsupset'', [0x2290]),
   (str ''bullet'', [0x2022]), (str ''sqsubseteq'', [0x2291]), (str ''sqsupseteq'', [0x2292]),
   (str ''star'', [0x22C6]), (str ''vdash'', [0x22A2]), (str ''dashv'', [0x22A3]),
   (str ''bigcirc'', [0x25EF]), (str ''models'', [0x22A8]), (str ''vDash'', str ''=|''),
   (str ''sim'', [0x223C]), (str ''maps'', [0x2192]), (str ''leftarrow'', [0x2190]),
   (str ''simeq'', [0x2243]), (str ''cap'', [0x2229]), (str ''cup'', [0x222A]),
   (str ''asymp'', [0x224D]), (str ''sqcap'', [0x2293]), (str ''sqcup'', [0x2294]),
   (str ''approx'', [0x2248]), (str ''oplus'', [0x2295]), (str ''uplus'', [0x228E]),
   (str ''cong'', [0x2245]), (str ''ominus'', [0x2296]), (str ''X'', [0x00D7]),
   (str ''doteq'', [0x2250]), (str ''odot'', [0x2299]), (str ''wr'', [0x2240]),
   (str ''otimes'', [0x2297]), (str ''propto'', [0x221D]), (str ''oslash'', [0x2298]),
   (str ''E'', [0x2203]), (str ''A'', [0x2200]), (str ''EE'', [0x2203]),
   (str ''AA'', [0x2200]), (str ''times'', [0x00D7]), (str ''circ'', [0x2218]),
   (str ''intersect'', [0x2229]), (str ''union'', [0x222A])]"

text \<open>
  \<^verbatim>\<open>new Map(entries)\<close> inserts the entries from left to right, a later entry replacing an earlier
  one with the same key; \<^verbatim>\<open>get\<close> returns \<^verbatim>\<open>undefined\<close> (here \<open>None\<close>) for a key never inserted.
\<close>

definition TLA_UNICODE_OPERATORS :: "jsstring \<rightharpoonup> jsstring" where
  "TLA_UNICODE_OPERATORS = map_of (rev TLA_UNICODE_OPERATOR_ENTRIES)"

definition TLA_STARTING_KEYWORDS :: "jsstring list" where
  "TLA_STARTING_KEYWORDS = map str
    [''EXTENDS'', ''VARIABLE'', ''VARIABLES'', ''CONSTANT'', ''CONSTANTS'', ''ASSUME'',
     ''ASSUMPTION'', ''AXIOM'', ''THEOREM'',
     ''PROOF'', ''LEMMA'', ''PROPOSITION'', ''COROLLARY'', ''RECURSIVE'']"

definition TLA_PROOF_STARTING_KEYWORDS :: "jsstring list" where
  "TLA_PROOF_STARTING_KEYWORDS = map str
    [''DEFINE'', ''QED'', ''HIDE'', ''SUFFICES'', ''PICK'', ''HAVE'', ''TAKE'', ''WITNESS'']"

definition TLA_OTHER_KEYWORDS :: "jsstring list" where
  "TLA_OTHER_KEYWORDS = map str
    [''LET'', ''IN'', ''EXCEPT'', ''ENABLED'', ''UNCHANGED'', ''LAMBDA'', ''DOMAIN'', ''CHOOSE'',
     ''LOCAL'',
     ''INSTANCE'', ''WITH'', ''SUBSET'', ''UNION'', ''SF_'', ''WF_'', ''USE'', ''BY'', ''DEF'',
     ''DEFS'', ''PROVE'', ''OBVIOUS'',
     ''NEW'', ''ACTION'', ''OMITTED'', ''ONLY'', ''STATE'', ''TEMPORAL'',
     ''IF'', ''THEN'', ''ELSE'', ''CASE'', ''OTHER'',
     ''BOOLEAN'']"

definition TLA_CONSTANTS :: "jsstring list" where
  "TLA_CONSTANTS = map str [''TRUE'', ''FALSE'']"

definition TLA_STD_MODULES :: "jsstring list" where
  "TLA_STD_MODULES = map str
    [''Bags'', ''FiniteSets'', ''Integers'', ''Naturals'', ''Randomization'', ''Reals'',
     ''RealTime'', ''Sequences'', ''TLC'']"

definition TLA_STARTING_KEYWORD_ITEMS :: "CompletionItem list" where
  "TLA_STARTING_KEYWORD_ITEMS = map (\<lambda>w. newCompletionItem w KindKeyword) TLA_STARTING_KEYWORDS"

definition TLA_PROOF_STARTING_KEYWORD_ITEMS :: "CompletionItem list" where
  "TLA_PROOF_STARTING_KEYWORD_ITEMS =
     map (\<lambda>w. newCompletionItem w KindKeyword) TLA_PROOF_STARTING_KEYWORDS"

definition TLA_OTHER_KEYWORD_ITEMS :: "CompletionItem list" where
  "TLA_OTHER_KEYWORD_ITEMS = map (\<lambda>w. newCompletionItem w KindKeyword) TLA_OTHER_KEYWORDS"

definition TLA_CONST_ITEMS :: "CompletionItem list" where
  "TLA_CONST_ITEMS = map (\<lambda>w. newCompletionItem w KindConstant) TLA_CONSTANTS"

definition TLA_OPERATOR_ITEMS :: "CompletionItem list" where
  "TLA_OPERATOR_ITEMS = map (\<lambda>w. newCompletionItem (backslash # w) KindOperator) TLA_OPERATORS"

definition TLA_INNER_ITEMS :: "CompletionItem list" where
  "TLA_INNER_ITEMS = TLA_OTHER_KEYWORD_ITEMS @ TLA_CONST_ITEMS"

definition TLA_STD_MODULE_ITEMS :: "CompletionItem list" where
  "TLA_STD_MODULE_ITEMS = map (\<lambda>m. newCompletionItem m KindModule) TLA_STD_MODULES"

section \<open>Resolving an item\<close>

text \<open>
  \<^verbatim>\<open>useUnicode && unicodeSymbol ? unicodeSymbol : '\\' + operatorName\<close>: the glyph is taken when
  the flag is set and the looked-up value is truthy, that is, defined and not the empty string.
  The item is mutated in place and returned; the model returns the updated item.
\<close>

definition resolveOperatorCompletion :: "CompletionItem \<Rightarrow> bool \<Rightarrow> CompletionItem" where
  "resolveOperatorCompletion item useUnicode =
     (let operatorName = substring1 (label item);
          unicodeSymbol = TLA_UNICODE_OPERATORS operatorName
      in item\<lparr>insertText :=
           Some ((case unicodeSymbol of
                    Some g \<Rightarrow> if useUnicode \<and> g \<noteq> [] then g else backslash # operatorName
                  | None \<Rightarrow> backslash # operatorName) @ [space])\<rparr>)"

text \<open>
  \<open>resolveCompletionItem\<close>; the module constant \<open>enableUnicodeAutocomplete\<close>, read once from
  the configuration, is the first argument. The cancellation token is never read.
\<close>

definition resolveCompletionItem :: "bool \<Rightarrow> CompletionItem \<Rightarrow> CompletionItem" where
  "resolveCompletionItem enableUnicodeAutocomplete item =
     (case kind item of
        KindKeyword \<Rightarrow> item\<lparr>insertText := Some (label item @ [space])\<rparr>
      | KindOperator \<Rightarrow> resolveOperatorCompletion item enableUnicodeAutocomplete
      | _ \<Rightarrow> item)"

section \<open>Regular expressions\<close>

text \<open>
  The four patterns of \<open>provideCompletionItems\<close> are sequences of the pieces below: the anchors
  \<^verbatim>\<open>^\<close> and \<^verbatim>\<open>$\<close> (no \<^verbatim>\<open>m\<close> flag: start and end of the input), one character of a class, a
  greedy \<^verbatim>\<open>*\<close> or \<^verbatim>\<open>+\<close> over a class, and the lookbehind \<^verbatim>\<open>(?<!c)\<close> of one character.
\<close>

datatype piece =
    Start
  | End
  | Chr "jschar \<Rightarrow> bool"
  | Many "jschar \<Rightarrow> bool"
  | Many1 "jschar \<Rightarrow> bool"
  | NotAfter jschar

text \<open>
  \<open>rmatch r p s\<close> runs the backtracking matcher on the pieces \<open>r\<close> at the front of the rest
  \<open>s\<close> of the input, \<open>p\<close> being the code unit just before it (\<open>None\<close> at the start of the
  input). It returns the input left after the first match in the matcher's order (a greedy
  quantifier takes one more character first and gives it back when the rest fails), or
  \<open>None\<close> when there is no match here.
\<close>

fun rmatch :: "piece list \<Rightarrow> jschar option \<Rightarrow> jsstring \<Rightarrow> jsstring option" where
  "rmatch [] p s = Some s"
| "rmatch (Start # r) p s = (if p = None then rmatch r p s else None)"
| "rmatch (End # r) p s = (if s = [] then rmatch r p s else None)"
| "rmatch (NotAfter x # r) p s = (if p = Some x then None else rmatch r p s)"
| "rmatch (Chr P # r) p [] = None"
| "rmatch (Chr P # r) p (c # s) = (if P c then rmatch r (Some c) s else None)"
| "rmatch (Many P # r) p [] = rmatch r p []"
| "rmatch (Many P # r) p (c # s) =
     (case (if P c then rmatch (Many P # r) (Some c) s else None) of
        Some t \<Rightarrow> Some t
      | None \<Rightarrow> rmatch r p (c # s))"
| "rmatch (Many1 P # r) p [] = None"
| "rmatch (Many1 P # r) p (c # s) = (if P c then rmatch (Many P # r) (Some c) s else None)"

text \<open>
  \<open>exec\<close> tries the start positions from left to right, as \<^verbatim>\<open>RegExp.prototype.exec\<close> does from
  \<^verbatim>\<open>lastIndex = 0\<close>, and returns the matched text \<^verbatim>\<open>match[0]\<close>. Every regular expression literal
  of the source is evaluated anew at each call, so the \<^verbatim>\<open>g\<close> flag finds \<^verbatim>\<open>lastIndex\<close> at 0.
\<close>

fun exec :: "piece list \<Rightarrow> jschar option \<Rightarrow> jsstring \<Rightarrow> jsstring option" where
  "exec r p [] = (case rmatch r p [] of Some t \<Rightarrow> Some [] | None \<Rightarrow> None)"
| "exec r p (c # s) =
     (case rmatch r p (c # s) of
        Some t \<Rightarrow> Some (take (length (c # s) - length t) (c # s))
      | None \<Rightarrow> exec r (Some c) s)"

definition test :: "piece list \<Rightarrow> jsstring \<Rightarrow> bool" where
  "test r s = (exec r None s \<noteq> None)"

definition match0 :: "jsstring \<Rightarrow> piece list \<Rightarrow> jsstring option" where
  "match0 s r = exec r None s"

subsection \<open>Character classes\<close>

text \<open>\<^verbatim>\<open>.\<close> without the \<^verbatim>\<open>s\<close> flag: any code unit but the four line terminators.\<close>

definition isDot :: "jschar \<Rightarrow> bool" where
  "isDot c = (c \<noteq> 0x0A \<and> c \<noteq> 0x0D \<and> c \<noteq> 0x2028 \<and> c \<noteq> 0x2029)"

definition isDigit :: "jschar \<Rightarrow> bool" where
  "isDigit c = (0x30 \<le> c \<and> c \<le> 0x39)"

definition isAlpha :: "jschar \<Rightarrow> bool" where
  "isAlpha c = ((0x61 \<le> c \<and> c \<le> 0x7A) \<or> (0x41 \<le> c \<and> c \<le> 0x5A))"

text \<open>\<^verbatim>\<open>\w\<close>: letters, digits and the underscore.\<close>

definition isWord :: "jschar \<Rightarrow> bool" where
  "isWord c = (isAlpha c \<or> isDigit c \<or> c = 0x5F)"

text \<open>\<^verbatim>\<open>\s\<close>: the white space and line terminator code points of ECMAScript.\<close>

definition isWhiteSpace :: "jschar \<Rightarrow> bool" where
  "isWhiteSpace c =
     (c = 0x09 \<or> c = 0x0A \<or> c = 0x0B \<or> c = 0x0C \<or> c = 0x0D \<or> c = 0x20 \<or> c = 0xA0
      \<or> c = 0x1680 \<or> (0x2000 \<le> c \<and> c \<le> 0x200A) \<or> c = 0x2028 \<or> c = 0x2029
      \<or> c = 0x202F \<or> c = 0x205F \<or> c = 0x3000 \<or> c = 0xFEFF)"

text \<open>\<^verbatim>\<open>[<>\d.a-zA-Z]\<close>\<close>

definition isStepChar :: "jschar \<Rightarrow> bool" where
  "isStepChar c = (c = 0x3C \<or> c = 0x3E \<or> isDigit c \<or> c = 0x2E \<or> isAlpha c)"

definition isBackslash :: "jschar \<Rightarrow> bool" where
  "isBackslash c = (c = backslash)"

definition isLess :: "jschar \<Rightarrow> bool" where
  "isLess c = (c = 0x3C)"

definition isGreater :: "jschar \<Rightarrow> bool" where
  "isGreater c = (c = 0x3E)"

subsection \<open>The patterns of the source\<close>

text \<open>\<^verbatim>\<open>/^.*(?<!\/)\\\w*$/g\<close>\<close>

definition re_isOperator :: "piece list" where
  "re_isOperator = [Start, Many isDot, NotAfter slash, Chr isBackslash, Many isWord, End]"

text \<open>\<^verbatim>\<open>/\\(\w*)$/\<close>\<close>

definition re_backslashWord :: "piece list" where
  "re_backslashWord = [Chr isBackslash, Many isWord, End]"

text \<open>\<^verbatim>\<open>/^\s*<\d+>[<>\d.a-zA-Z]*\s+[a-zA-Z]*$/g\<close>\<close>

definition re_isProofStep :: "piece list" where
  "re_isProofStep =
     [Start, Many isWhiteSpace, Chr isLess, Many1 isDigit, Chr isGreater, Many isStepChar,
      Many1 isWhiteSpace, Many isAlpha, End]"

text \<open>\<^verbatim>\<open>/^\s*[a-zA-Z]*$/g\<close>\<close>

definition re_isNewLine :: "piece list" where
  "re_isNewLine = [Start, Many isWhiteSpace, Many isAlpha, End]"

section \<open>The document and its symbols\<close>

record TextDocument =
  uri :: string
  lines :: "jsstring list"

text \<open>
  The class \<open>TlaDocumentInfo\<close> of \<^verbatim>\<open>../model/documentInfo\<close> is not among the sources. The
  provider reads its field \<open>symbols\<close>, which may be undefined, and calls its method
  \<open>isPlusCalAt\<close>; both are taken as given.
\<close>

record TlaDocumentInfo =
  symbols :: "SymbolInformation list option"
  isPlusCalAt :: "Position \<Rightarrow> bool"

text \<open>
  Modelled from the spec: \<open>getPrevText\<close>, imported from \<^verbatim>\<open>./completions\<close>, a file that is not
  among the sources. The spec describes its result as the full text of the current line from
  its start up to the cursor. A line the document does not have has the empty text.
\<close>

definition getPrevText :: "TextDocument \<Rightarrow> Position \<Rightarrow> jsstring" where
  "getPrevText document position =
     (if line position < length (lines document)
      then take (character position) (lines document ! line position)
      else [])"

fun mapKind :: "SymbolKind \<Rightarrow> CompletionItemKind" where
  "mapKind SymbolField = KindField"
| "mapKind SymbolVariable = KindVariable"
| "mapKind SymbolFunction = KindFunction"
| "mapKind SymbolMethod = KindMethod"
| "mapKind SymbolNamespace = KindModule"
| "mapKind SymbolModule = KindModule"
| "mapKind SymbolConstant = KindConstant"
| "mapKind _ = KindText"

section \<open>Providing the completion items\<close>

text \<open>
  \<open>provideCompletionItems\<close>. The provider's field \<open>docInfos\<close> is the first argument, as the
  lookup \<^verbatim>\<open>docInfos.get(uri)\<close>; the cancellation token and the completion context are never
  read. A \<^verbatim>\<open>ProviderResult\<close> may be undefined, so the result is an option.
\<close>

definition provideCompletionItems ::
  "(string \<Rightarrow> TlaDocumentInfo) \<Rightarrow> TextDocument \<Rightarrow> Position \<Rightarrow> CompletionList option" where
  "provideCompletionItems docInfos document position =
     (let prevText = getPrevText document position in
      if startsWith prevText (str ''EXTENDS'') then
        Some (newCompletionList TLA_STD_MODULE_ITEMS False)
      else if startsWith prevText (str ''CONSTANT'') \<or> startsWith prevText (str ''RECURSIVE'') then
        Some (newCompletionList [] False)
      else if test re_isOperator prevText then
        (case match0 prevText re_backslashWord of
           Some m \<Rightarrow>
             (let backslashCol = length prevText - length m;
                  range = newRange \<lparr>line = line position, character = backslashCol\<rparr> position;
                  items = map (\<lambda>op. (newCompletionItem (backslash # op) KindOperator)
                                        \<lparr>itemRange := Some range\<rparr>) TLA_OPERATORS
              in Some (newCompletionList items False))
         | None \<Rightarrow> Some (newCompletionList TLA_OPERATOR_ITEMS False))
      else
        (let docInfo = docInfos (uri document);
             symbols = (case symbols docInfo of Some ss \<Rightarrow> ss | None \<Rightarrow> []);
             symbolInfos = map (\<lambda>s. newCompletionItem (name s) (mapKind (symbolKind s))) symbols;
             items = TLA_INNER_ITEMS @ symbolInfos;
             items =
               (if \<not> isPlusCalAt docInfo position then
                  (let isProofStep = test re_isProofStep prevText;
                       isNewLine = test re_isNewLine prevText
                   in if isProofStep then items @ TLA_PROOF_STARTING_KEYWORD_ITEMS
                      else if isNewLine then items @ TLA_STARTING_KEYWORD_ITEMS
                      else items)
                else items)
         in Some (newCompletionList items False)))"

section \<open>Auxiliary definitions for the statements and proofs\<close>

text \<open>The characters a piece can consume, and the code unit before the input left when \<open>u\<close>
  has been consumed after \<open>p\<close>; both serve the lemmas about the matcher.\<close>

fun accepts :: "piece \<Rightarrow> jschar \<Rightarrow> bool" where
  "accepts (Chr P) c = P c"
| "accepts (Many P) c = P c"
| "accepts (Many1 P) c = P c"
| "accepts _ c = False"

definition lastOr :: "jschar option \<Rightarrow> jsstring \<Rightarrow> jschar option" where
  "lastOr p u = (if u = [] then p else Some (last u))"

text \<open>The items made from the symbols of a document, as the general branch of
  \<open>provideCompletionItems\<close> builds them.\<close>

definition symbolItems :: "TlaDocumentInfo \<Rightarrow> CompletionItem list" where
  "symbolItems docInfo =
     map (\<lambda>s. newCompletionItem (name s) (mapKind (symbolKind s)))
       (case symbols docInfo of Some ss \<Rightarrow> ss | None \<Rightarrow> [])"

text \<open>A text that ends in a space, with a non-empty part before it that does not end in a space.\<close>

definition oneTrailingSpace :: "jsstring \<Rightarrow> bool" where
  "oneTrailingSpace t = (t \<noteq> [] \<and> last t = space \<and> butlast t \<noteq> [] \<and> last (butlast t) \<noteq> space)"

text \<open>Example inputs: a document of one line with the symbol \<open>Foo\<close> of kind field, outside or
  inside a PlusCal block, and the position at the end of the line.\<close>

definition exampleInfo :: TlaDocumentInfo where
  "exampleInfo = \<lparr>symbols = Some [\<lparr>name = str ''Foo'', symbolKind = SymbolField\<rparr>],
                   isPlusCalAt = (\<lambda>position. False)\<rparr>"

definition exampleInfos :: "string \<Rightarrow> TlaDocumentInfo" where
  "exampleInfos u = exampleInfo"

definition examplePlusCalInfos :: "string \<Rightarrow> TlaDocumentInfo" where
  "examplePlusCalInfos u = exampleInfo\<lparr>isPlusCalAt := (\<lambda>position. True)\<rparr>"

definition exampleDoc :: "jsstring \<Rightarrow> TextDocument" where
  "exampleDoc s = \<lparr>uri = ''test.tla'', lines = [s]\<rparr>"

definition lineEnd :: "jsstring \<Rightarrow> Position" where
  "lineEnd s = \<lparr>line = 0, character = length s\<rparr>"

definition operatorLine :: jsstring where
  "operatorLine = str ''x '' @ backslash # str ''i''"

definition extendsOperatorLine :: jsstring where
  "extendsOperatorLine = str ''EXTENDS '' @ backslash # str ''e''"

definition proofStepLine :: jsstring where
  "proofStepLine = str ''<12>.4 QE''"

definition stepLine :: jsstring where
  "stepLine = str ''<1>. ''"

definition escapedSpaceLine :: jsstring where
  "escapedSpaceLine = backslash # str '' e''"

section \<open>Properties of the matcher\<close>

lemmas class_defs = isDot_def isDigit_def isAlpha_def isWord_def isWhiteSpace_def isStepChar_def
  isBackslash_def isLess_def isGreater_def backslash_def slash_def space_def

lemmas pattern_defs = test_def re_isOperator_def re_isProofStep_def re_isNewLine_def

lemma rmatch_chars:
  "rmatch r p s = Some [] \<Longrightarrow> c \<in> set s \<Longrightarrow> \<exists>x\<in>set r. accepts x c"
proof (induction r p s rule: rmatch.induct)
  case (8 P r p d s)
  show ?case
  proof (cases "P d \<and> rmatch (Many P # r) (Some d) s \<noteq> None")
    case True
    then have Pc: "P d" and m: "rmatch (Many P # r) (Some d) s = Some []"
      using "8.prems" by auto
    show ?thesis
    proof (cases "c = d")
      case True
      with Pc show ?thesis by simp
    next
      case False
      with "8.prems" have "c \<in> set s" by simp
      from "8.IH"(1)[OF Pc m this] show ?thesis .
    qed
  next
    case False
    then have n: "(if P d then rmatch (Many P # r) (Some d) s else None) = None" by auto
    with "8.prems" have m: "rmatch r p (d # s) = Some []" by simp
    from "8.IH"(2)[OF n m "8.prems"(2)] show ?thesis by simp
  qed
qed (auto split: if_splits)

lemma rmatch_length: "rmatch r p s = Some t \<Longrightarrow> length t \<le> length s"
proof (induction r p s rule: rmatch.induct)
  case (8 P r p c s)
  then show ?case by (cases "P c"; cases "rmatch (Many P # r) (Some c) s") (auto split: if_splits)
qed (auto split: if_splits)

lemma rmatch_End: "rmatch r p s = Some t \<Longrightarrow> End \<in> set r \<Longrightarrow> t = []"
proof (induction r p s rule: rmatch.induct)
  case (3 r p s)
  then have "s = []" "rmatch r p [] = Some t" by (auto split: if_splits)
  with rmatch_length[of r p "[]" t] show ?case by simp
next
  case (8 P r p c s)
  then show ?case by (cases "P c"; cases "rmatch (Many P # r) (Some c) s") (auto split: if_splits)
qed (auto split: if_splits)

lemma rmatch_Chr_needed:
  "rmatch r p s = Some t \<Longrightarrow> Chr P \<in> set r \<Longrightarrow> \<exists>c\<in>set s. P c"
proof (induction r p s rule: rmatch.induct)
  case (8 Q r p c s)
  then show ?case by (cases "Q c"; cases "rmatch (Many Q # r) (Some c) s") (auto split: if_splits)
qed (auto split: if_splits)

lemma exec_Start_Some: "exec (Start # r) (Some c) s = None"
  by (induction s arbitrary: c) auto

lemma test_Start: "test (Start # r) s = (rmatch r None s \<noteq> None)"
  by (cases s) (auto simp: test_def exec_Start_Some split: option.splits)

lemma rmatch_Many_End: "rmatch [Many P, End] p s = (if \<forall>c\<in>set s. P c then Some [] else None)"
  by (induction s arbitrary: p) auto

lemma rmatch_Many_append:
  "\<forall>c\<in>set u. P c \<Longrightarrow> rmatch r (lastOr p u) v \<noteq> None \<Longrightarrow> rmatch (Many P # r) p (u @ v) \<noteq> None"
proof (induction u arbitrary: p)
  case Nil
  then show ?case by (cases v) (auto simp: lastOr_def split: option.splits)
next
  case (Cons a u)
  have "lastOr (Some a) u = lastOr p (a # u)" by (simp add: lastOr_def)
  with Cons.prems have "rmatch (Many P # r) (Some a) (u @ v) \<noteq> None"
    using Cons.IH[of "Some a"] by simp
  with Cons.prems show ?case by auto
qed

lemma not_word_backslash: "\<not> isWord backslash"
  by (simp add: isWord_def isAlpha_def isDigit_def backslash_def)

lemma test_isOperator_shape:
  assumes "\<forall>c\<in>set pre. isDot c" "pre = [] \<or> last pre \<noteq> slash" "\<forall>c\<in>set w. isWord c"
  shows "test re_isOperator (pre @ backslash # w)"
proof -
  have "rmatch [NotAfter slash, Chr isBackslash, Many isWord, End] (lastOr None pre) (backslash # w) \<noteq> None"
    using assms by (auto simp: lastOr_def isBackslash_def rmatch_Many_End)
  with assms(1) show ?thesis
    unfolding re_isOperator_def test_Start by (rule rmatch_Many_append)
qed

lemma exec_backslashWord:
  assumes "\<forall>c\<in>set w. isWord c"
  shows "exec re_backslashWord p (pre @ backslash # w) = Some (backslash # w)"
proof (induction pre arbitrary: p)
  case Nil
  from assms show ?case
    by (simp add: re_backslashWord_def isBackslash_def rmatch_Many_End)
next
  case (Cons a pre)
  have "\<not> (\<forall>c\<in>set (pre @ backslash # w). isWord c)" using not_word_backslash by auto
  then have "rmatch [Many isWord, End] q (pre @ backslash # w) = None" for q
    by (simp only: rmatch_Many_End if_False)
  then have "rmatch re_backslashWord p (a # pre @ backslash # w) = None"
    by (simp add: re_backslashWord_def)
  with Cons.IH[of "Some a"] show ?case by simp
qed

lemma proofStep_chars:
  assumes "test re_isProofStep s"
  shows "\<forall>c\<in>set s. isWhiteSpace c \<or> isStepChar c"
proof -
  from assms obtain t where m: "rmatch (tl re_isProofStep) None s = Some t"
    by (auto simp: re_isProofStep_def test_Start)
  then have "t = []" by (rule rmatch_End) (simp add: re_isProofStep_def)
  with m have "\<forall>c\<in>set s. \<exists>x\<in>set (tl re_isProofStep). accepts x c"
    using rmatch_chars by blast
  then show ?thesis
    by (auto simp: re_isProofStep_def isStepChar_def isLess_def isGreater_def)
qed

lemma isOperator_backslash:
  assumes "test re_isOperator s" shows "backslash \<in> set s"
proof -
  from assms obtain t where m: "rmatch (tl re_isOperator) None s = Some t"
    by (auto simp: re_isOperator_def test_Start)
  have "Chr isBackslash \<in> set (tl re_isOperator)" by (simp add: re_isOperator_def)
  from rmatch_Chr_needed[OF m this] show ?thesis by (auto simp: isBackslash_def)
qed

lemma proofStep_not_operator: "test re_isProofStep s \<Longrightarrow> \<not> test re_isOperator s"
proof
  assume a: "test re_isProofStep s" and b: "test re_isOperator s"
  from isOperator_backslash[OF b] proofStep_chars[OF a]
  have "isWhiteSpace backslash \<or> isStepChar backslash" by blast
  then show False
    by (simp add: isWhiteSpace_def isStepChar_def isAlpha_def isDigit_def backslash_def)
qed

lemma startsWith_Cons: "startsWith s (a # k) \<Longrightarrow> \<exists>t. s = a # t"
  by (cases s) (auto simp: startsWith_def)

lemma proofStep_first:
  "test re_isProofStep (a # t) \<Longrightarrow> isWhiteSpace a \<or> a = 0x3C"
  by (auto simp: re_isProofStep_def test_Start isLess_def split: if_splits option.splits)

lemma str_EXTENDS: "str ''EXTENDS'' = 0x45 # str ''XTENDS''"
  and str_CONSTANT: "str ''CONSTANT'' = 0x43 # str ''ONSTANT''"
  and str_RECURSIVE: "str ''RECURSIVE'' = 0x52 # str ''ECURSIVE''"
  by (simp_all add: str_def)

lemma startsWith_first: "startsWith s (a # k) \<Longrightarrow> startsWith s (b # k') \<Longrightarrow> a = b"
  by (cases s) (auto simp: startsWith_def)

lemma proofStep_no_keyword_prefix:
  assumes "test re_isProofStep s"
  shows "\<not> startsWith s (str ''EXTENDS'') \<and> \<not> startsWith s (str ''CONSTANT'')
         \<and> \<not> startsWith s (str ''RECURSIVE'')"
proof -
  have "\<not> startsWith s (a # k)" if "\<not> isWhiteSpace a" "a \<noteq> 0x3C" for a k
  proof
    assume "startsWith s (a # k)"
    then obtain t where "s = a # t" using startsWith_Cons by blast
    with assms proofStep_first that show False by blast
  qed
  then show ?thesis
    unfolding str_EXTENDS str_CONSTANT str_RECURSIVE by (simp add: isWhiteSpace_def)
qed

lemma rmatch_Many1_append:
  assumes "u \<noteq> []" "\<forall>c\<in>set u. P c" "rmatch r (lastOr p u) v \<noteq> None"
  shows "rmatch (Many1 P # r) p (u @ v) \<noteq> None"
proof -
  from assms(1) obtain a u' where u: "u = a # u'" by (cases u) auto
  have "lastOr (Some a) u' = lastOr p u" by (simp add: u lastOr_def)
  with assms(2,3) have "rmatch (Many P # r) (Some a) (u' @ v) \<noteq> None"
    using rmatch_Many_append[of u' P r "Some a" v] by (simp add: u)
  with assms(2) show ?thesis by (simp add: u)
qed

text \<open>
  What the two patterns of the general branch accept: white space, \<open><\<close>, digits, \<open>>\<close>, further
  step characters, white space and letters; and white space followed by letters.
\<close>

lemma test_isProofStep_shape:
  assumes ws: "\<forall>c\<in>set ws. isWhiteSpace c"
    and ds: "ds \<noteq> []" "\<forall>c\<in>set ds. isDigit c"
    and rest: "\<forall>c\<in>set rest. isStepChar c"
    and gap: "gap \<noteq> []" "\<forall>c\<in>set gap. isWhiteSpace c"
    and ident: "\<forall>c\<in>set ident. isAlpha c"
  shows "test re_isProofStep (ws @ 0x3C # ds @ 0x3E # rest @ gap @ ident)"
proof -
  have "rmatch [Many isAlpha, End] q ident \<noteq> None" for q
    using ident by (simp add: rmatch_Many_End)
  with gap have "rmatch [Many1 isWhiteSpace, Many isAlpha, End] q (gap @ ident) \<noteq> None" for q
    by (intro rmatch_Many1_append) auto
  with rest have "rmatch [Many isStepChar, Many1 isWhiteSpace, Many isAlpha, End] q
                    (rest @ gap @ ident) \<noteq> None" for q
    by (intro rmatch_Many_append) auto
  then have "rmatch [Chr isGreater, Many isStepChar, Many1 isWhiteSpace, Many isAlpha, End] q
               (0x3E # rest @ gap @ ident) \<noteq> None" for q
    by (simp add: isGreater_def)
  with ds have "rmatch [Many1 isDigit, Chr isGreater, Many isStepChar, Many1 isWhiteSpace,
                        Many isAlpha, End] q (ds @ 0x3E # rest @ gap @ ident) \<noteq> None" for q
    by (intro rmatch_Many1_append) auto
  then have "rmatch [Chr isLess, Many1 isDigit, Chr isGreater, Many isStepChar,
                     Many1 isWhiteSpace, Many isAlpha, End] q
               (0x3C # ds @ 0x3E # rest @ gap @ ident) \<noteq> None" for q
    by (simp add: isLess_def)
  with ws have "rmatch (tl re_isProofStep) None (ws @ 0x3C # ds @ 0x3E # rest @ gap @ ident) \<noteq> None"
    unfolding re_isProofStep_def list.sel by (intro rmatch_Many_append) auto
  then show ?thesis by (simp add: re_isProofStep_def test_Start)
qed

lemma test_isNewLine_shape:
  assumes "\<forall>c\<in>set ws. isWhiteSpace c" "\<forall>c\<in>set ident. isAlpha c"
  shows "test re_isNewLine (ws @ ident)"
proof -
  have "rmatch [Many isAlpha, End] q ident \<noteq> None" for q
    using assms(2) by (simp add: rmatch_Many_End)
  with assms(1) have "rmatch [Many isWhiteSpace, Many isAlpha, End] None (ws @ ident) \<noteq> None"
    by (intro rmatch_Many_append) auto
  then show ?thesis by (simp add: re_isNewLine_def test_Start)
qed

lemma proofStep_examples:
  "test re_isProofStep (str ''<1>. '')" "test re_isProofStep (str ''<12>.4 '')"
  "test re_isProofStep (str ''<8>.a '')" "test re_isProofStep (str ''  <8>.a  QE'')"
  "\<not> test re_isProofStep (str ''<8>.a'')" "\<not> test re_isProofStep (str ''<>. '')"
  by (simp_all add: pattern_defs str_def class_defs)

section \<open>Resolving an item: the claims\<close>

lemma glyphs_ok:
  "\<forall>(k, g) \<in> set TLA_UNICODE_OPERATOR_ENTRIES. g \<noteq> [] \<and> last g \<noteq> space"
  by (simp add: TLA_UNICODE_OPERATOR_ENTRIES_def str_def space_def)

lemma glyph_lookup:
  assumes "TLA_UNICODE_OPERATORS k = Some g" shows "g \<noteq> [] \<and> last g \<noteq> space"
proof -
  from assms have "(k, g) \<in> set (rev TLA_UNICODE_OPERATOR_ENTRIES)"
    unfolding TLA_UNICODE_OPERATORS_def by (rule map_of_SomeD)
  then have "(k, g) \<in> set TLA_UNICODE_OPERATOR_ENTRIES" by simp
  with glyphs_ok show ?thesis by blast
qed

lemma lookup_in: "TLA_UNICODE_OPERATORS (str ''in'') = Some [0x2208]"
  by (simp add: TLA_UNICODE_OPERATORS_def TLA_UNICODE_OPERATOR_ENTRIES_def str_def)

lemma lookup_s: "TLA_UNICODE_OPERATORS (str ''s'') = None"
  by (simp add: TLA_UNICODE_OPERATORS_def TLA_UNICODE_OPERATOR_ENTRIES_def str_def)

lemma operators_no_trailing_space: "\<forall>op\<in>set TLA_OPERATORS. op \<noteq> [] \<and> last op \<noteq> space"
  by (simp add: TLA_OPERATORS_def str_def space_def)

text \<open>
  Claim C3. For every item and preference flag, \<open>resolveOperatorCompletion\<close> sets the insert text
  to the glyph followed by one space when the flag is set and the label without its first
  character (the backslash of an operator label) has a glyph, and otherwise to a backslash, that
  bare name and one space. In particular \<open>\in\<close> resolves to the glyph U+2208 and a space with the
  flag and to \<open>\in\<close> and a space without it, and \<open>\s\<close>, which has no glyph, resolves to \<open>\s\<close> and a
  space under both flags.
\<close>

theorem resolveOperatorCompletion_insertText:
  "(useUnicode \<and> TLA_UNICODE_OPERATORS (substring1 (label item)) = Some g \<longrightarrow>
      insertText (resolveOperatorCompletion item useUnicode) = Some (g @ [space]))
   \<and> (\<not> (useUnicode \<and> TLA_UNICODE_OPERATORS (substring1 (label item)) \<noteq> None) \<longrightarrow>
      insertText (resolveOperatorCompletion item useUnicode)
        = Some (backslash # substring1 (label item) @ [space]))
   \<and> insertText (resolveOperatorCompletion (newCompletionItem (backslash # str ''in'') KindOperator) True)
        = Some [0x2208, space]
   \<and> insertText (resolveOperatorCompletion (newCompletionItem (backslash # str ''in'') KindOperator) False)
        = Some (backslash # str ''in'' @ [space])
   \<and> TLA_UNICODE_OPERATORS (str ''s'') = None
   \<and> insertText (resolveOperatorCompletion (newCompletionItem (backslash # str ''s'') KindOperator) True)
        = Some (backslash # str ''s'' @ [space])
   \<and> insertText (resolveOperatorCompletion (newCompletionItem (backslash # str ''s'') KindOperator) False)
        = Some (backslash # str ''s'' @ [space])"
proof -
  have a: "useUnicode \<and> TLA_UNICODE_OPERATORS (substring1 (label item)) = Some g \<longrightarrow>
      insertText (resolveOperatorCompletion item useUnicode) = Some (g @ [space])"
    using glyph_lookup[of "substring1 (label item)" g]
    by (auto simp: resolveOperatorCompletion_def Let_def)
  have b: "\<not> (useUnicode \<and> TLA_UNICODE_OPERATORS (substring1 (label item)) \<noteq> None) \<longrightarrow>
      insertText (resolveOperatorCompletion item useUnicode)
        = Some (backslash # substring1 (label item) @ [space])"
    by (auto simp: resolveOperatorCompletion_def Let_def split: option.splits)
  have c: "insertText (resolveOperatorCompletion (newCompletionItem (backslash # n) KindOperator) u)
      = Some ((case TLA_UNICODE_OPERATORS n of
                 Some g \<Rightarrow> if u \<and> g \<noteq> [] then g else backslash # n
               | None \<Rightarrow> backslash # n) @ [space])" for n u
    by (simp add: resolveOperatorCompletion_def newCompletionItem_def substring1_def)
  show ?thesis using a b by (simp add: c lookup_in lookup_s)
qed

text \<open>Claim C3 at \<open>\leq\<close> with the flag set, and at a label without a backslash with the flag
  cleared.\<close>

theorem resolveOperatorCompletion_insertText_witness:
  "insertText (resolveOperatorCompletion (newCompletionItem (backslash # str ''leq'') KindOperator) True)
     = Some [0x2264, space]
   \<and> insertText (resolveOperatorCompletion (newCompletionItem (str ''leq'') KindKeyword) False)
     = Some (backslash # str ''eq'' @ [space])"
proof -
  have l: "TLA_UNICODE_OPERATORS (str ''leq'') = Some [0x2264]"
    by (simp add: TLA_UNICODE_OPERATORS_def TLA_UNICODE_OPERATOR_ENTRIES_def str_def)
  have s: "substring1 (label (newCompletionItem (backslash # str ''leq'') KindOperator)) = str ''leq''"
       "substring1 (label (newCompletionItem (str ''leq'') KindKeyword)) = str ''eq''"
    by (simp_all add: substring1_def newCompletionItem_def str_def)
  from resolveOperatorCompletion_insertText
         [of True "newCompletionItem (backslash # str ''leq'') KindOperator" "[0x2264]"]
       resolveOperatorCompletion_insertText
         [of False "newCompletionItem (str ''leq'') KindKeyword"]
  show ?thesis by (simp add: s l)
qed

text \<open>
  Claim C8. For every operator of the catalog and both values of the preference flag, resolving
  the item labelled with the backslash and the operator yields an insert text that is not empty
  and ends in exactly one space.
\<close>

theorem catalog_operator_insertText:
  assumes "op \<in> set TLA_OPERATORS" "label item = backslash # op"
  shows "\<exists>t. insertText (resolveOperatorCompletion item useUnicode) = Some t \<and> oneTrailingSpace t"
proof -
  from assms(1) operators_no_trailing_space have op: "op \<noteq> []" "last op \<noteq> space" by auto
  show ?thesis
  proof (cases "TLA_UNICODE_OPERATORS op")
    case None
    with assms(2) op show ?thesis
      by (simp add: resolveOperatorCompletion_def substring1_def oneTrailingSpace_def)
  next
    case (Some g)
    with glyph_lookup have "g \<noteq> []" "last g \<noteq> space" by auto
    with Some assms(2) op show ?thesis
      by (simp add: resolveOperatorCompletion_def substring1_def oneTrailingSpace_def)
  qed
qed

text \<open>Claim C8 at \<open>vDash\<close>, the one operator whose glyph is ASCII.\<close>

theorem catalog_operator_insertText_witness:
  "str ''vDash'' \<in> set TLA_OPERATORS
   \<and> insertText (resolveOperatorCompletion (newCompletionItem (backslash # str ''vDash'') KindOperator) True)
       = Some (str ''=| '')
   \<and> oneTrailingSpace (str ''=| '')"
proof -
  have m: "str ''vDash'' \<in> set TLA_OPERATORS" by (simp add: TLA_OPERATORS_def)
  have l: "label (newCompletionItem (backslash # str ''vDash'') KindOperator) = backslash # str ''vDash''"
    by (simp add: newCompletionItem_def)
  have v: "TLA_UNICODE_OPERATORS (str ''vDash'') = Some (str ''=|'')"
    by (simp add: TLA_UNICODE_OPERATORS_def TLA_UNICODE_OPERATOR_ENTRIES_def str_def)
  have e: "insertText (resolveOperatorCompletion (newCompletionItem (backslash # str ''vDash'') KindOperator) True)
       = Some (str ''=| '')"
    by (simp add: resolveOperatorCompletion_def newCompletionItem_def substring1_def v)
       (simp add: str_def space_def)
  from catalog_operator_insertText[OF m l, of True] m e show ?thesis by auto
qed

text \<open>
  Claim C9. Resolving an item that has been resolved already, with the same preference, gives
  the same item, so the same insert text: the resolver reads the label and the kind only, and
  writes the insert text only. This holds for keyword and operator items and for every other
  kind, which the resolver leaves unchanged.
\<close>

theorem resolveCompletionItem_idempotent:
  "resolveCompletionItem u (resolveCompletionItem u item) = resolveCompletionItem u item"
  by (cases "kind item") (simp_all add: resolveCompletionItem_def resolveOperatorCompletion_def Let_def)

text \<open>Claim C9 at the keyword item \<open>QED\<close>.\<close>

theorem resolveCompletionItem_idempotent_witness:
  "insertText (resolveCompletionItem True
      (resolveCompletionItem True (newCompletionItem (str ''QED'') KindKeyword)))
     = Some (str ''QED '')
   \<and> insertText (resolveCompletionItem True (newCompletionItem (str ''QED'') KindKeyword))
     = Some (str ''QED '')"
proof -
  have "insertText (resolveCompletionItem True (newCompletionItem (str ''QED'') KindKeyword))
     = Some (str ''QED '')"
    by (simp add: resolveCompletionItem_def newCompletionItem_def str_def space_def)
  with resolveCompletionItem_idempotent[of True "newCompletionItem (str ''QED'') KindKeyword"]
  show ?thesis by simp
qed

section \<open>The branches of the provider\<close>

lemma getPrevText_length: "length (getPrevText document position) \<le> character position"
  by (simp add: getPrevText_def)

lemma getPrevText_example: "getPrevText (exampleDoc s) (lineEnd s) = s"
  by (simp add: getPrevText_def exampleDoc_def lineEnd_def)

lemma general_branch:
  assumes "\<not> startsWith (getPrevText document position) (str ''EXTENDS'')"
    and "\<not> startsWith (getPrevText document position) (str ''CONSTANT'')"
    and "\<not> startsWith (getPrevText document position) (str ''RECURSIVE'')"
    and "\<not> test re_isOperator (getPrevText document position)"
  shows "provideCompletionItems docInfos document position
           = Some \<lparr>items =
               (if isPlusCalAt (docInfos (uri document)) position then
                  TLA_INNER_ITEMS @ symbolItems (docInfos (uri document))
                else if test re_isProofStep (getPrevText document position) then
                  (TLA_INNER_ITEMS @ symbolItems (docInfos (uri document)))
                    @ TLA_PROOF_STARTING_KEYWORD_ITEMS
                else if test re_isNewLine (getPrevText document position) then
                  (TLA_INNER_ITEMS @ symbolItems (docInfos (uri document)))
                    @ TLA_STARTING_KEYWORD_ITEMS
                else TLA_INNER_ITEMS @ symbolItems (docInfos (uri document))),
              isIncomplete = False\<rparr>"
  using assms
  by (simp add: provideCompletionItems_def Let_def symbolItems_def newCompletionList_def)

lemma other_keywords_disjoint:
  "\<forall>k\<in>set TLA_OTHER_KEYWORDS. k \<notin> set TLA_STARTING_KEYWORDS \<and> k \<notin> set TLA_PROOF_STARTING_KEYWORDS"
  by (simp add: TLA_OTHER_KEYWORDS_def TLA_STARTING_KEYWORDS_def TLA_PROOF_STARTING_KEYWORDS_def
      str_def)

lemma proof_keywords_disjoint:
  "\<forall>k\<in>set TLA_PROOF_STARTING_KEYWORDS. k \<notin> set TLA_STARTING_KEYWORDS"
  by (simp add: TLA_STARTING_KEYWORDS_def TLA_PROOF_STARTING_KEYWORDS_def str_def)

lemma mapKind_not_keyword: "mapKind k \<noteq> KindKeyword"
  by (cases k) simp_all

lemma inner_items_keywords:
  assumes "it \<in> set TLA_INNER_ITEMS" "kind it = KindKeyword"
  shows "label it \<in> set TLA_OTHER_KEYWORDS"
  using assms
  by (auto simp: TLA_INNER_ITEMS_def TLA_OTHER_KEYWORD_ITEMS_def TLA_CONST_ITEMS_def
      newCompletionItem_def)

lemma symbol_items_not_keyword:
  "it \<in> set (symbolItems docInfo) \<Longrightarrow> kind it \<noteq> KindKeyword"
  by (auto simp: symbolItems_def newCompletionItem_def mapKind_not_keyword)

lemma proof_items_keywords:
  "it \<in> set TLA_PROOF_STARTING_KEYWORD_ITEMS \<Longrightarrow> label it \<in> set TLA_PROOF_STARTING_KEYWORDS"
  by (auto simp: TLA_PROOF_STARTING_KEYWORD_ITEMS_def newCompletionItem_def)

lemma general_items_no_starting:
  assumes "it \<in> set (TLA_INNER_ITEMS @ symbolItems docInfo)" "kind it = KindKeyword"
  shows "label it \<notin> set TLA_STARTING_KEYWORDS \<and> label it \<notin> set TLA_PROOF_STARTING_KEYWORDS"
  using assms inner_items_keywords symbol_items_not_keyword other_keywords_disjoint
  by auto

lemma stepLine_tests:
  "\<not> startsWith stepLine (str ''EXTENDS'')" "\<not> startsWith stepLine (str ''CONSTANT'')"
  "\<not> startsWith stepLine (str ''RECURSIVE'')" "\<not> test re_isOperator stepLine"
  "test re_isProofStep stepLine"
  by (simp_all add: stepLine_def startsWith_def pattern_defs str_def class_defs)

lemma escapedSpaceLine_tests:
  "\<not> startsWith escapedSpaceLine (str ''EXTENDS'')" "\<not> startsWith escapedSpaceLine (str ''CONSTANT'')"
  "\<not> startsWith escapedSpaceLine (str ''RECURSIVE'')" "\<not> test re_isOperator escapedSpaceLine"
  "\<not> test re_isProofStep escapedSpaceLine" "\<not> test re_isNewLine escapedSpaceLine"
  by (simp_all add: escapedSpaceLine_def startsWith_def pattern_defs str_def class_defs)

section \<open>Providing the items: the claims\<close>

text \<open>
  Claim C4. For every line prefix that starts with \<open>EXTENDS\<close> the provider returns the complete
  list of the standard-module items and nothing else: one item of kind module per standard
  module, in the order of the catalog.
\<close>

theorem extends_prefix_std_modules:
  assumes "startsWith (getPrevText document position) (str ''EXTENDS'')"
  shows "provideCompletionItems docInfos document position
           = Some \<lparr>items = TLA_STD_MODULE_ITEMS, isIncomplete = False\<rparr>
         \<and> map label TLA_STD_MODULE_ITEMS = TLA_STD_MODULES
         \<and> (\<forall>it\<in>set TLA_STD_MODULE_ITEMS. kind it = KindModule)"
  using assms
  by (simp add: provideCompletionItems_def newCompletionList_def TLA_STD_MODULE_ITEMS_def
      newCompletionItem_def comp_def)

text \<open>Claim C4 at the prefix \<open>EXTENDS\<close> followed by a space.\<close>

theorem extends_prefix_std_modules_witness:
  "startsWith (getPrevText (exampleDoc (str ''EXTENDS '')) (lineEnd (str ''EXTENDS ''))) (str ''EXTENDS'')
   \<and> provideCompletionItems exampleInfos (exampleDoc (str ''EXTENDS '')) (lineEnd (str ''EXTENDS ''))
       = Some \<lparr>items = TLA_STD_MODULE_ITEMS, isIncomplete = False\<rparr>"
proof -
  have h: "startsWith (getPrevText (exampleDoc (str ''EXTENDS '')) (lineEnd (str ''EXTENDS ''))) (str ''EXTENDS'')"
    by (simp add: getPrevText_example) (simp add: startsWith_def str_def)
  from extends_prefix_std_modules[OF h] h show ?thesis by simp
qed

text \<open>
  Claim C5. For every line prefix that starts with \<open>CONSTANT\<close> or \<open>RECURSIVE\<close> the provider
  returns an explicit result, not a missing one, whose item list is empty and which is marked
  complete.
\<close>

theorem constant_prefix_empty_complete:
  assumes "startsWith (getPrevText document position) (str ''CONSTANT'')
           \<or> startsWith (getPrevText document position) (str ''RECURSIVE'')"
  shows "provideCompletionItems docInfos document position
           = Some \<lparr>items = [], isIncomplete = False\<rparr>"
proof -
  have "\<not> startsWith (getPrevText document position) (str ''EXTENDS'')"
    using assms startsWith_first unfolding str_EXTENDS str_CONSTANT str_RECURSIVE by fastforce
  with assms show ?thesis
    by (auto simp: provideCompletionItems_def newCompletionList_def)
qed

text \<open>Claim C5 at the prefix \<open>CONSTANTS N,\<close> followed by a space.\<close>

theorem constant_prefix_empty_complete_witness:
  "startsWith (getPrevText (exampleDoc (str ''CONSTANTS N, '')) (lineEnd (str ''CONSTANTS N, ''))) (str ''CONSTANT'')
   \<and> provideCompletionItems exampleInfos (exampleDoc (str ''CONSTANTS N, '')) (lineEnd (str ''CONSTANTS N, ''))
       = Some \<lparr>items = [], isIncomplete = False\<rparr>"
proof -
  have h: "startsWith (getPrevText (exampleDoc (str ''CONSTANTS N, '')) (lineEnd (str ''CONSTANTS N, ''))) (str ''CONSTANT'')"
    by (simp add: getPrevText_example) (simp add: startsWith_def str_def)
  from constant_prefix_empty_complete[OF disjI1, OF h] h show ?thesis by simp
qed

text \<open>
  Claim C1, amended. For every line prefix that does not start with \<open>EXTENDS\<close>, \<open>CONSTANT\<close> or
  \<open>RECURSIVE\<close> and that is a text \<open>pre\<close> without line terminators and not ending in a slash,
  followed by a backslash and zero or more word characters \<open>w\<close>, the provider returns the
  complete list of one operator-kind item per catalog operator, each with the replacement range
  that starts at the column of that backslash, the last one of the prefix, and ends at the cursor.
\<close>

theorem operator_prefix_items:
  assumes p: "getPrevText document position = pre @ backslash # w"
    and w: "\<forall>c\<in>set w. isWord c"
    and pre: "\<forall>c\<in>set pre. isDot c" "pre = [] \<or> last pre \<noteq> slash"
    and kw: "\<not> startsWith (pre @ backslash # w) (str ''EXTENDS'')"
            "\<not> startsWith (pre @ backslash # w) (str ''CONSTANT'')"
            "\<not> startsWith (pre @ backslash # w) (str ''RECURSIVE'')"
  shows "provideCompletionItems docInfos document position
           = Some \<lparr>items =
                      map (\<lambda>op. \<lparr>label = backslash # op, kind = KindOperator, insertText = None,
                                 itemRange = Some \<lparr>range_start = \<lparr>line = line position,
                                                                  character = length pre\<rparr>,
                                                   range_end = position\<rparr>\<rparr>)
                        TLA_OPERATORS,
                    isIncomplete = False\<rparr>
         \<and> backslash \<notin> set w"
proof -
  have t: "test re_isOperator (pre @ backslash # w)"
    using pre w by (rule test_isOperator_shape)
  have m: "match0 (pre @ backslash # w) re_backslashWord = Some (backslash # w)"
    unfolding match0_def using w by (rule exec_backslashWord)
  have "length (pre @ backslash # w) \<le> character position"
    using getPrevText_length[of document position] p by simp
  then have "length pre \<le> character position" by simp
  then have r: "newRange \<lparr>line = line position, character = length pre\<rparr> position
               = \<lparr>range_start = \<lparr>line = line position, character = length pre\<rparr>,
                  range_end = position\<rparr>"
    by (simp add: newRange_def isBeforeOrEqual_def)
  have "backslash \<notin> set w" using w not_word_backslash by blast
  then show ?thesis
    using kw by (simp add: provideCompletionItems_def p t m r newCompletionList_def
        newCompletionItem_def Let_def)
qed

text \<open>Claim C1, amended, at the prefix \<open>x \i\<close>: the range starts at column 2.\<close>

theorem operator_prefix_items_witness:
  "getPrevText (exampleDoc operatorLine) (lineEnd operatorLine) = str ''x '' @ backslash # str ''i''
   \<and> provideCompletionItems exampleInfos (exampleDoc operatorLine) (lineEnd operatorLine)
       = Some \<lparr>items =
                  map (\<lambda>op. \<lparr>label = backslash # op, kind = KindOperator, insertText = None,
                             itemRange = Some \<lparr>range_start = \<lparr>line = 0, character = 2\<rparr>,
                                               range_end = \<lparr>line = 0, character = 4\<rparr>\<rparr>\<rparr>)
                    TLA_OPERATORS,
                isIncomplete = False\<rparr>"
proof -
  have p: "getPrevText (exampleDoc operatorLine) (lineEnd operatorLine)
             = str ''x '' @ backslash # str ''i''"
    by (simp add: getPrevText_example operatorLine_def)
  have w: "\<forall>c\<in>set (str ''i''). isWord c" by (simp add: str_def class_defs)
  have d: "\<forall>c\<in>set (str ''x ''). isDot c" by (simp add: str_def class_defs)
  have l: "str ''x '' = [] \<or> last (str ''x '') \<noteq> slash" by (simp add: str_def class_defs)
  have k: "\<not> startsWith (str ''x '' @ backslash # str ''i'') (str ''EXTENDS'')"
    "\<not> startsWith (str ''x '' @ backslash # str ''i'') (str ''CONSTANT'')"
    "\<not> startsWith (str ''x '' @ backslash # str ''i'') (str ''RECURSIVE'')"
    by (simp_all add: startsWith_def str_def)
  have e: "lineEnd operatorLine = \<lparr>line = 0, character = 4\<rparr>" "length (str ''x '') = 2"
    by (simp_all add: lineEnd_def operatorLine_def str_def)
  from operator_prefix_items[OF p w d l k, of exampleInfos] p show ?thesis
    by (simp add: e)
qed

text \<open>
  Claim C1 as stated fails at the prefix \<open>EXTENDS \e\<close>: it ends in a backslash and a word
  character, the backslash follows a space, and the operator pattern matches it; the provider
  answers with the standard modules all the same, none of operator kind, since the rule for
  \<open>EXTENDS\<close> comes first.
\<close>

theorem operator_prefix_after_EXTENDS_counterexample:
  "getPrevText (exampleDoc extendsOperatorLine) (lineEnd extendsOperatorLine)
     = str ''EXTENDS '' @ backslash # str ''e''
   \<and> isWord (of_char CHR ''e'')
   \<and> last (str ''EXTENDS '') \<noteq> slash
   \<and> test re_isOperator extendsOperatorLine
   \<and> provideCompletionItems exampleInfos (exampleDoc extendsOperatorLine) (lineEnd extendsOperatorLine)
       = Some (newCompletionList TLA_STD_MODULE_ITEMS False)
   \<and> KindOperator \<notin> set (map kind TLA_STD_MODULE_ITEMS)"
proof -
  have p: "getPrevText (exampleDoc extendsOperatorLine) (lineEnd extendsOperatorLine)
     = str ''EXTENDS '' @ backslash # str ''e''"
    by (simp add: getPrevText_example extendsOperatorLine_def)
  have s: "startsWith (str ''EXTENDS '' @ backslash # str ''e'') (str ''EXTENDS'')"
    by (simp add: startsWith_def str_def)
  have r: "provideCompletionItems exampleInfos (exampleDoc extendsOperatorLine)
             (lineEnd extendsOperatorLine) = Some (newCompletionList TLA_STD_MODULE_ITEMS False)"
    by (simp add: provideCompletionItems_def p s)
  have t: "test re_isOperator extendsOperatorLine"
    by (simp add: extendsOperatorLine_def pattern_defs str_def class_defs)
  have k: "KindOperator \<notin> set (map kind TLA_STD_MODULE_ITEMS)"
    by (auto simp: TLA_STD_MODULE_ITEMS_def newCompletionItem_def)
  have c: "isWord (of_char CHR ''e'')" "last (str ''EXTENDS '') \<noteq> slash"
    by (simp_all add: str_def class_defs)
  from p c t r k show ?thesis by blast
qed

text \<open>
  The \<^verbatim>\<open>.\<close> of the operator pattern stops at a line terminator: behind the line separator U+2028
  a backslash is found by the second pattern but not by the first.
\<close>

lemma line_separator_before_backslash:
  "\<not> test re_isOperator [0x2028, backslash]
   \<and> match0 [0x2028, backslash] re_backslashWord = Some [backslash]"
  by (simp add: match0_def re_backslashWord_def pattern_defs class_defs)

text \<open>
  Claim C6. For every line prefix that matches the proof-step pattern, with the cursor outside
  the PlusCal block, the provider returns the general items, the symbols and the proof-starting
  keywords; every proof-starting keyword is among the items as a keyword item, and no keyword
  item carries a starting keyword.
\<close>

theorem proof_step_prefix_keywords:
  assumes ps: "test re_isProofStep (getPrevText document position)"
    and pc: "\<not> isPlusCalAt (docInfos (uri document)) position"
  shows "\<exists>l. provideCompletionItems docInfos document position = Some l
           \<and> items l = TLA_INNER_ITEMS @ symbolItems (docInfos (uri document))
                          @ TLA_PROOF_STARTING_KEYWORD_ITEMS
           \<and> (\<forall>w\<in>set TLA_PROOF_STARTING_KEYWORDS. newCompletionItem w KindKeyword \<in> set (items l))
           \<and> (\<forall>it\<in>set (items l). kind it = KindKeyword \<longrightarrow> label it \<notin> set TLA_STARTING_KEYWORDS)"
proof -
  let ?its = "TLA_INNER_ITEMS @ symbolItems (docInfos (uri document))
                @ TLA_PROOF_STARTING_KEYWORD_ITEMS"
  from ps have kw: "\<not> startsWith (getPrevText document position) (str ''EXTENDS'')"
      "\<not> startsWith (getPrevText document position) (str ''CONSTANT'')"
      "\<not> startsWith (getPrevText document position) (str ''RECURSIVE'')"
    using proofStep_no_keyword_prefix by blast+
  from ps have op: "\<not> test re_isOperator (getPrevText document position)"
    by (rule proofStep_not_operator)
  have r: "provideCompletionItems docInfos document position
             = Some \<lparr>items = ?its, isIncomplete = False\<rparr>"
    using general_branch[OF kw op, of docInfos] ps pc by simp
  have a: "\<forall>w\<in>set TLA_PROOF_STARTING_KEYWORDS. newCompletionItem w KindKeyword \<in> set ?its"
    by (simp add: TLA_PROOF_STARTING_KEYWORD_ITEMS_def)
  have b: "label it \<notin> set TLA_STARTING_KEYWORDS" if "it \<in> set ?its" "kind it = KindKeyword" for it
  proof (cases "it \<in> set TLA_PROOF_STARTING_KEYWORD_ITEMS")
    case True
    with proof_items_keywords proof_keywords_disjoint show ?thesis by blast
  next
    case False
    with that have "it \<in> set (TLA_INNER_ITEMS @ symbolItems (docInfos (uri document)))" by auto
    with general_items_no_starting that(2) show ?thesis by blast
  qed
  from r a b show ?thesis by auto
qed

text \<open>Claim C6 at the prefix \<open><12>.4 QE\<close>.\<close>

theorem proof_step_prefix_keywords_witness:
  "test re_isProofStep (getPrevText (exampleDoc proofStepLine) (lineEnd proofStepLine))
   \<and> \<not> isPlusCalAt (exampleInfos (uri (exampleDoc proofStepLine))) (lineEnd proofStepLine)
   \<and> (\<exists>l. provideCompletionItems exampleInfos (exampleDoc proofStepLine) (lineEnd proofStepLine)
             = Some l
           \<and> items l = TLA_INNER_ITEMS @ symbolItems (exampleInfos (uri (exampleDoc proofStepLine)))
                          @ TLA_PROOF_STARTING_KEYWORD_ITEMS
           \<and> (\<forall>w\<in>set TLA_PROOF_STARTING_KEYWORDS. newCompletionItem w KindKeyword \<in> set (items l))
           \<and> (\<forall>it\<in>set (items l). kind it = KindKeyword \<longrightarrow> label it \<notin> set TLA_STARTING_KEYWORDS))"
proof -
  have h1: "test re_isProofStep (getPrevText (exampleDoc proofStepLine) (lineEnd proofStepLine))"
    by (simp add: getPrevText_example) (simp add: proofStepLine_def pattern_defs str_def class_defs)
  have h2: "\<not> isPlusCalAt (exampleInfos (uri (exampleDoc proofStepLine))) (lineEnd proofStepLine)"
    by (simp add: exampleInfos_def exampleInfo_def)
  from proof_step_prefix_keywords
         [of "exampleDoc proofStepLine" "lineEnd proofStepLine" exampleInfos, OF h1 h2] h1 h2
  show ?thesis by blast
qed

text \<open>
  Claim C10. Whenever the cursor lies in the PlusCal block and neither the \<open>EXTENDS\<close> rule, the
  \<open>CONSTANT\<close>/\<open>RECURSIVE\<close> rule nor the operator rule fires, the provider returns exactly the
  general keywords, the constants and the symbols of the document, whatever the prefix; no
  keyword item among them carries a starting keyword or a proof-starting keyword.
\<close>

theorem pluscal_general_only:
  assumes "isPlusCalAt (docInfos (uri document)) position"
    and "\<not> startsWith (getPrevText document position) (str ''EXTENDS'')"
    and "\<not> startsWith (getPrevText document position) (str ''CONSTANT'')"
    and "\<not> startsWith (getPrevText document position) (str ''RECURSIVE'')"
    and "\<not> test re_isOperator (getPrevText document position)"
  shows "provideCompletionItems docInfos document position
           = Some \<lparr>items = TLA_OTHER_KEYWORD_ITEMS @ TLA_CONST_ITEMS
                              @ symbolItems (docInfos (uri document)),
                    isIncomplete = False\<rparr>
         \<and> (\<forall>it\<in>set (TLA_OTHER_KEYWORD_ITEMS @ TLA_CONST_ITEMS
                          @ symbolItems (docInfos (uri document))).
               kind it = KindKeyword \<longrightarrow>
                 label it \<notin> set TLA_STARTING_KEYWORDS
                 \<and> label it \<notin> set TLA_PROOF_STARTING_KEYWORDS)"
proof -
  have r: "provideCompletionItems docInfos document position
           = Some \<lparr>items = TLA_OTHER_KEYWORD_ITEMS @ TLA_CONST_ITEMS
                              @ symbolItems (docInfos (uri document)),
                    isIncomplete = False\<rparr>"
    using general_branch[OF assms(2-5), of docInfos] assms(1) by (simp add: TLA_INNER_ITEMS_def)
  have "label it \<notin> set TLA_STARTING_KEYWORDS \<and> label it \<notin> set TLA_PROOF_STARTING_KEYWORDS"
    if "it \<in> set (TLA_OTHER_KEYWORD_ITEMS @ TLA_CONST_ITEMS @ symbolItems (docInfos (uri document)))"
       "kind it = KindKeyword" for it
    using general_items_no_starting[of it "docInfos (uri document)"] that
    by (simp add: TLA_INNER_ITEMS_def)
  with r show ?thesis by blast
qed

text \<open>Claim C10 at the prefix \<open><1>.\<close> followed by a space, which matches the proof-step pattern.\<close>

theorem pluscal_general_only_witness:
  "isPlusCalAt (examplePlusCalInfos (uri (exampleDoc stepLine))) (lineEnd stepLine)
   \<and> test re_isProofStep (getPrevText (exampleDoc stepLine) (lineEnd stepLine))
   \<and> provideCompletionItems examplePlusCalInfos (exampleDoc stepLine) (lineEnd stepLine)
       = Some \<lparr>items = TLA_OTHER_KEYWORD_ITEMS @ TLA_CONST_ITEMS
                          @ [newCompletionItem (str ''Foo'') KindField],
                isIncomplete = False\<rparr>"
proof -
  have h: "isPlusCalAt (examplePlusCalInfos (uri (exampleDoc stepLine))) (lineEnd stepLine)"
    by (simp add: examplePlusCalInfos_def)
  have s: "symbolItems (examplePlusCalInfos (uri (exampleDoc stepLine)))
             = [newCompletionItem (str ''Foo'') KindField]"
    by (simp add: symbolItems_def examplePlusCalInfos_def exampleInfo_def)
  from pluscal_general_only[of examplePlusCalInfos "exampleDoc stepLine" "lineEnd stepLine"]
    h stepLine_tests
  show ?thesis by (simp add: getPrevText_example s)
qed

text \<open>
  Claim C2, amended. For every invocation that reaches the general branch outside the PlusCal
  block with a prefix matching the proof-step or the new-line pattern, the list holds the general
  keywords first, then the constants, then the items of the symbols, and the keyword class last:
  the proof-starting keywords for a proof-step prefix, the starting keywords otherwise.
\<close>

theorem escalated_items_order:
  assumes "\<not> startsWith (getPrevText document position) (str ''EXTENDS'')"
    and "\<not> startsWith (getPrevText document position) (str ''CONSTANT'')"
    and "\<not> startsWith (getPrevText document position) (str ''RECURSIVE'')"
    and "\<not> test re_isOperator (getPrevText document position)"
    and "\<not> isPlusCalAt (docInfos (uri document)) position"
    and "test re_isProofStep (getPrevText document position)
         \<or> test re_isNewLine (getPrevText document position)"
  shows "provideCompletionItems docInfos document position
           = Some \<lparr>items = TLA_OTHER_KEYWORD_ITEMS @ TLA_CONST_ITEMS
                      @ symbolItems (docInfos (uri document))
                      @ (if test re_isProofStep (getPrevText document position)
                         then TLA_PROOF_STARTING_KEYWORD_ITEMS else TLA_STARTING_KEYWORD_ITEMS),
                    isIncomplete = False\<rparr>"
  using general_branch[OF assms(1-4), of docInfos] assms(5,6)
  by (auto simp: TLA_INNER_ITEMS_def)

text \<open>Claim C2, amended, at the prefix \<open><1>.\<close> followed by a space.\<close>

theorem escalated_items_order_witness:
  "test re_isProofStep (getPrevText (exampleDoc stepLine) (lineEnd stepLine))
   \<and> \<not> isPlusCalAt (exampleInfos (uri (exampleDoc stepLine))) (lineEnd stepLine)
   \<and> provideCompletionItems exampleInfos (exampleDoc stepLine) (lineEnd stepLine)
       = Some \<lparr>items = TLA_OTHER_KEYWORD_ITEMS @ TLA_CONST_ITEMS
                          @ [newCompletionItem (str ''Foo'') KindField]
                          @ TLA_PROOF_STARTING_KEYWORD_ITEMS,
                isIncomplete = False\<rparr>"
proof -
  have h: "\<not> isPlusCalAt (exampleInfos (uri (exampleDoc stepLine))) (lineEnd stepLine)"
    by (simp add: exampleInfos_def exampleInfo_def)
  have s: "symbolItems (exampleInfos (uri (exampleDoc stepLine)))
             = [newCompletionItem (str ''Foo'') KindField]"
    by (simp add: symbolItems_def exampleInfos_def exampleInfo_def)
  from escalated_items_order[of "exampleDoc stepLine" "lineEnd stepLine" exampleInfos]
    h stepLine_tests
  show ?thesis by (simp add: getPrevText_example s)
qed

text \<open>
  Claim C2 as stated fails at the prefix \<open><1>.\<close> followed by a space: the list starts with the
  general keyword \<open>LET\<close> and ends with the proof-starting keywords; it is not the list that has
  the proof-starting keywords first.
\<close>

theorem escalated_order_counterexample:
  "test re_isProofStep (getPrevText (exampleDoc stepLine) (lineEnd stepLine))
   \<and> provideCompletionItems exampleInfos (exampleDoc stepLine) (lineEnd stepLine)
       = Some (newCompletionList
                (TLA_OTHER_KEYWORD_ITEMS @ TLA_CONST_ITEMS @ symbolItems exampleInfo
                   @ TLA_PROOF_STARTING_KEYWORD_ITEMS) False)
   \<and> provideCompletionItems exampleInfos (exampleDoc stepLine) (lineEnd stepLine)
       \<noteq> Some (newCompletionList
                (TLA_PROOF_STARTING_KEYWORD_ITEMS @ TLA_OTHER_KEYWORD_ITEMS @ TLA_CONST_ITEMS
                   @ symbolItems exampleInfo) False)
   \<and> hd (TLA_OTHER_KEYWORD_ITEMS @ TLA_CONST_ITEMS @ symbolItems exampleInfo
            @ TLA_PROOF_STARTING_KEYWORD_ITEMS) = newCompletionItem (str ''LET'') KindKeyword"
proof -
  have h: "\<not> isPlusCalAt (exampleInfos (uri (exampleDoc stepLine))) (lineEnd stepLine)"
    by (simp add: exampleInfos_def exampleInfo_def)
  have r: "provideCompletionItems exampleInfos (exampleDoc stepLine) (lineEnd stepLine)
       = Some (newCompletionList
                (TLA_OTHER_KEYWORD_ITEMS @ TLA_CONST_ITEMS @ symbolItems exampleInfo
                   @ TLA_PROOF_STARTING_KEYWORD_ITEMS) False)"
    using general_branch[of "exampleDoc stepLine" "lineEnd stepLine" exampleInfos]
      h stepLine_tests
    by (simp add: getPrevText_example exampleInfos_def TLA_INNER_ITEMS_def newCompletionList_def)
  have hd1: "hd (TLA_OTHER_KEYWORD_ITEMS @ TLA_CONST_ITEMS @ symbolItems exampleInfo
            @ TLA_PROOF_STARTING_KEYWORD_ITEMS) = newCompletionItem (str ''LET'') KindKeyword"
    by (simp add: TLA_OTHER_KEYWORD_ITEMS_def TLA_OTHER_KEYWORDS_def)
  have hd2: "hd (TLA_PROOF_STARTING_KEYWORD_ITEMS @ TLA_OTHER_KEYWORD_ITEMS @ TLA_CONST_ITEMS
                   @ symbolItems exampleInfo) = newCompletionItem (str ''DEFINE'') KindKeyword"
    by (simp add: TLA_PROOF_STARTING_KEYWORD_ITEMS_def TLA_PROOF_STARTING_KEYWORDS_def)
  have "newCompletionItem (str ''LET'') KindKeyword \<noteq> newCompletionItem (str ''DEFINE'') KindKeyword"
    by (simp add: newCompletionItem_def str_def)
  with hd1 hd2 have "TLA_OTHER_KEYWORD_ITEMS @ TLA_CONST_ITEMS @ symbolItems exampleInfo
            @ TLA_PROOF_STARTING_KEYWORD_ITEMS
        \<noteq> TLA_PROOF_STARTING_KEYWORD_ITEMS @ TLA_OTHER_KEYWORD_ITEMS @ TLA_CONST_ITEMS
                   @ symbolItems exampleInfo" by metis
  with r stepLine_tests(5) hd1 show ?thesis
    by (simp add: getPrevText_example newCompletionList_def)
qed

text \<open>
  Claim C7, amended. For every line prefix that fires no rule (it does not start with
  \<open>EXTENDS\<close>, \<open>CONSTANT\<close> or \<open>RECURSIVE\<close> and matches none of the operator, proof-step and new-line
  patterns) the provider returns the general keywords, the constants and the symbols only. The
  empty prefix matches the new-line pattern: outside the PlusCal block it gets the starting
  keywords in addition, inside it the general items only. Every invocation returns a result,
  marked complete.
\<close>

theorem unmatched_prefix_general_only:
  "(\<not> startsWith (getPrevText document position) (str ''EXTENDS'')
      \<and> \<not> startsWith (getPrevText document position) (str ''CONSTANT'')
      \<and> \<not> startsWith (getPrevText document position) (str ''RECURSIVE'')
      \<and> \<not> test re_isOperator (getPrevText document position)
      \<and> \<not> test re_isProofStep (getPrevText document position)
      \<and> \<not> test re_isNewLine (getPrevText document position)
    \<longrightarrow> provideCompletionItems docInfos document position
          = Some \<lparr>items = TLA_INNER_ITEMS @ symbolItems (docInfos (uri document)),
                  isIncomplete = False\<rparr>)
   \<and> (getPrevText document position = [] \<and> \<not> isPlusCalAt (docInfos (uri document)) position
    \<longrightarrow> provideCompletionItems docInfos document position
          = Some \<lparr>items = TLA_INNER_ITEMS @ symbolItems (docInfos (uri document))
                            @ TLA_STARTING_KEYWORD_ITEMS,
                  isIncomplete = False\<rparr>)
   \<and> (getPrevText document position = [] \<and> isPlusCalAt (docInfos (uri document)) position
    \<longrightarrow> provideCompletionItems docInfos document position
          = Some \<lparr>items = TLA_INNER_ITEMS @ symbolItems (docInfos (uri document)),
                  isIncomplete = False\<rparr>)
   \<and> (\<exists>l. provideCompletionItems docInfos document position = Some l \<and> isIncomplete l = False)"
proof -
  have e: "\<not> startsWith [] (str ''EXTENDS'')" "\<not> startsWith [] (str ''CONSTANT'')"
    "\<not> startsWith [] (str ''RECURSIVE'')" "\<not> test re_isOperator []"
    "\<not> test re_isProofStep []" "test re_isNewLine []"
    by (simp_all add: startsWith_def str_def test_def re_isOperator_def re_isProofStep_def
        re_isNewLine_def)
  have a: "\<not> startsWith (getPrevText document position) (str ''EXTENDS'')
      \<and> \<not> startsWith (getPrevText document position) (str ''CONSTANT'')
      \<and> \<not> startsWith (getPrevText document position) (str ''RECURSIVE'')
      \<and> \<not> test re_isOperator (getPrevText document position)
      \<and> \<not> test re_isProofStep (getPrevText document position)
      \<and> \<not> test re_isNewLine (getPrevText document position)
    \<longrightarrow> provideCompletionItems docInfos document position
          = Some \<lparr>items = TLA_INNER_ITEMS @ symbolItems (docInfos (uri document)),
                  isIncomplete = False\<rparr>"
    using general_branch[of document position docInfos] by auto
  have b: "getPrevText document position = [] \<and> \<not> isPlusCalAt (docInfos (uri document)) position
    \<longrightarrow> provideCompletionItems docInfos document position
          = Some \<lparr>items = TLA_INNER_ITEMS @ symbolItems (docInfos (uri document))
                            @ TLA_STARTING_KEYWORD_ITEMS,
                  isIncomplete = False\<rparr>"
    using general_branch[of document position docInfos] e by auto
  have c: "getPrevText document position = [] \<and> isPlusCalAt (docInfos (uri document)) position
    \<longrightarrow> provideCompletionItems docInfos document position
          = Some \<lparr>items = TLA_INNER_ITEMS @ symbolItems (docInfos (uri document)),
                  isIncomplete = False\<rparr>"
    using general_branch[of document position docInfos] e by auto
  have d: "\<exists>l. provideCompletionItems docInfos document position = Some l \<and> isIncomplete l = False"
    by (simp add: provideCompletionItems_def Let_def newCompletionList_def split: option.splits)
  from a b c d show ?thesis by blast
qed

text \<open>Claim C7, amended, at a backslash followed by a space and \<open>e\<close>, and at the empty prefix.\<close>

theorem unmatched_prefix_general_only_witness:
  "\<not> test re_isOperator (getPrevText (exampleDoc escapedSpaceLine) (lineEnd escapedSpaceLine))
   \<and> \<not> test re_isNewLine (getPrevText (exampleDoc escapedSpaceLine) (lineEnd escapedSpaceLine))
   \<and> provideCompletionItems exampleInfos (exampleDoc escapedSpaceLine) (lineEnd escapedSpaceLine)
       = Some \<lparr>items = TLA_INNER_ITEMS @ [newCompletionItem (str ''Foo'') KindField],
                isIncomplete = False\<rparr>
   \<and> provideCompletionItems exampleInfos (exampleDoc []) (lineEnd [])
       = Some \<lparr>items = TLA_INNER_ITEMS @ [newCompletionItem (str ''Foo'') KindField]
                          @ TLA_STARTING_KEYWORD_ITEMS,
                isIncomplete = False\<rparr>"
proof -
  have h: "\<not> isPlusCalAt (exampleInfos (uri (exampleDoc s))) (lineEnd s)" for s
    by (simp add: exampleInfos_def exampleInfo_def)
  have s: "symbolItems (exampleInfos (uri (exampleDoc s)))
             = [newCompletionItem (str ''Foo'') KindField]" for s
    by (simp add: symbolItems_def exampleInfos_def exampleInfo_def)
  from unmatched_prefix_general_only
         [of "exampleDoc escapedSpaceLine" "lineEnd escapedSpaceLine" exampleInfos]
       unmatched_prefix_general_only[of "exampleDoc []" "lineEnd []" exampleInfos]
       escapedSpaceLine_tests h
  show ?thesis by (simp add: getPrevText_example s)
qed

text \<open>
  Claim C7 as stated fails at the empty prefix outside the PlusCal block: the starting keywords
  are offered, so the result is not the general keywords, constants and symbols only.
\<close>

theorem empty_prefix_counterexample:
  "getPrevText (exampleDoc []) (lineEnd []) = []
   \<and> \<not> isPlusCalAt (exampleInfos (uri (exampleDoc []))) (lineEnd [])
   \<and> provideCompletionItems exampleInfos (exampleDoc []) (lineEnd [])
       = Some (newCompletionList
                (TLA_INNER_ITEMS @ symbolItems exampleInfo @ TLA_STARTING_KEYWORD_ITEMS) False)
   \<and> provideCompletionItems exampleInfos (exampleDoc []) (lineEnd [])
       \<noteq> Some (newCompletionList (TLA_INNER_ITEMS @ symbolItems exampleInfo) False)
   \<and> newCompletionItem (str ''EXTENDS'') KindKeyword \<in> set TLA_STARTING_KEYWORD_ITEMS"
proof -
  have e: "\<not> startsWith [] (str ''EXTENDS'')" "\<not> startsWith [] (str ''CONSTANT'')"
    "\<not> startsWith [] (str ''RECURSIVE'')" "\<not> test re_isOperator []"
    "\<not> test re_isProofStep []" "test re_isNewLine []"
    by (simp_all add: startsWith_def str_def pattern_defs)
  have h: "\<not> isPlusCalAt (exampleInfos (uri (exampleDoc []))) (lineEnd [])"
    by (simp add: exampleInfos_def exampleInfo_def)
  have r: "provideCompletionItems exampleInfos (exampleDoc []) (lineEnd [])
       = Some (newCompletionList
                (TLA_INNER_ITEMS @ symbolItems exampleInfo @ TLA_STARTING_KEYWORD_ITEMS) False)"
    using general_branch[of "exampleDoc []" "lineEnd []" exampleInfos] h e
    by (simp add: getPrevText_example exampleInfos_def newCompletionList_def)
  have m: "newCompletionItem (str ''EXTENDS'') KindKeyword \<in> set TLA_STARTING_KEYWORD_ITEMS"
    by (simp add: TLA_STARTING_KEYWORD_ITEMS_def TLA_STARTING_KEYWORDS_def)
  then have "TLA_STARTING_KEYWORD_ITEMS \<noteq> []" by auto
  with r h m show ?thesis by (simp add: getPrevText_example newCompletionList_def)
qed

end
